theory Spec2Isabelle
  imports Main
begin

section \<open>The broker-name backfill script\<close>

text \<open>
  The repository is one Python script, \<^verbatim>\<open>scripts/fix-broker-names.py\<close>. It scans the
  trips table through a DynamoDB client, looks every item's \<^verbatim>\<open>brokerId\<close> up in the
  dictionary \<^verbatim>\<open>BROKER_NAMES\<close>, and writes the name found into the item's
  \<^verbatim>\<open>brokerName\<close> attribute with \<^verbatim>\<open>update_item\<close>, counting updated and failed
  items and printing progress lines.

  The script is modelled by explicit state passing. The state holds the client object,
  the two counters, and the ordered list of everything the script has done to the outside
  world so far: the lines printed and the requests sent. The client is a parameter: its
  two methods take the client's state and give back a result (or the exception raised)
  and the new state. Printing is taken to succeed.
\<close>

subsection \<open>Values of the client interface\<close>

text \<open>
  An attribute value of the low-level client is a dictionary with one type key
  (\<^verbatim>\<open>{'S': 'T1'}\<close>, \<^verbatim>\<open>{'N': '3'}\<close>, ...): a tagged union. An item is a dictionary from
  attribute names to attribute values.
\<close>

datatype attr_value =
    S string
  | N string
  | B string
  | BOOL bool
  | NULL
  | SS "string list"
  | NS "string list"
  | BS "string list"
  | L "attr_value list"
  | M "(string \<times> attr_value) list"

type_synonym item = "string \<rightharpoonup> attr_value"

text \<open>
  Exceptions (subclasses of \<^verbatim>\<open>Exception\<close>): the \<^verbatim>\<open>KeyError\<close> of a dictionary
  subscript, carrying the key, and an error of the client, carrying its message.
  \<open>str_exn\<close> is Python's \<^verbatim>\<open>str(e)\<close>: for a \<^verbatim>\<open>KeyError\<close> the key in quotes.
\<close>

datatype exn = KeyError string | ClientError string

fun str_exn :: "exn \<Rightarrow> string" where
  "str_exn (KeyError k) = [CHR 0x27] @ k @ [CHR 0x27]"
| "str_exn (ClientError m) = m"

record update_item_request =
  TableName :: string
  Key :: item
  UpdateExpression :: string
  ExpressionAttributeValues :: item

record scan_response =
  Items :: "item list"
  LastEvaluatedKey :: "item option"

datatype effect =
    Print string
  | Scan string
  | UpdateItem update_item_request

record 'c script_state =
  dynamodb :: 'c
  trace :: "effect list"
  updated :: int
  failed :: int

subsection \<open>Configuration (lines 6-33, 47)\<close>

definition AWS_PROFILE :: string where
  "AWS_PROFILE = ''haul-hub''"

definition ENVIRONMENT :: string where
  "ENVIRONMENT = ''dev''"

definition REGION :: string where
  "REGION = ''us-east-1''"

definition BROKER_NAMES :: "string \<rightharpoonup> string" where
  "BROKER_NAMES = map_of
     [(''broker-001'', ''C.H. Robinson''),
      (''broker-002'', ''XPO Logistics''),
      (''broker-003'', ''TQL (Total Quality Logistics)''),
      (''broker-004'', ''Coyote Logistics''),
      (''broker-005'', ''Echo Global Logistics''),
      (''broker-006'', ''Landstar System''),
      (''broker-007'', ''J.B. Hunt Transport Services''),
      (''broker-008'', ''Schneider National''),
      (''broker-009'', ''Werner Enterprises''),
      (''broker-010'', ''Knight-Swift Transportation''),
      (''broker-011'', ''Hub Group''),
      (''broker-012'', ''Transplace''),
      (''broker-013'', ''Arrive Logistics''),
      (''broker-014'', ''GlobalTranz''),
      (''broker-015'', ''Convoy''),
      (''broker-016'', ''Uber Freight''),
      (''broker-017'', ''Loadsmart''),
      (''broker-018'', ''Freightos''),
      (''broker-019'', ''Flexport''),
      (''broker-020'', ''Redwood Logistics'')]"

definition TRIPS_TABLE :: string where
  "TRIPS_TABLE = ''HaulHub-TripsTable-'' @ ENVIRONMENT"

subsection \<open>Printing\<close>

text \<open>
  \<^verbatim>\<open>print\<close> appends one line to the trace. The three signs the script prints are outside
  ASCII; they are written as their UTF-8 bytes. \<open>str_int\<close> is \<^verbatim>\<open>str\<close> on an integer, as
  the f-strings of lines 54, 97 and 98 format the counts.
\<close>

definition print :: "string \<Rightarrow> 'c script_state \<Rightarrow> 'c script_state" where
  "print line st = st\<lparr>trace := trace st @ [Print line]\<rparr>"

definition warning_sign :: string where
  "warning_sign = [CHR 0xE2, CHR 0x9A, CHR 0xA0]"

definition check_mark :: string where
  "check_mark = [CHR 0xE2, CHR 0x9C, CHR 0x93]"

definition ballot_x :: string where
  "ballot_x = [CHR 0xE2, CHR 0x9C, CHR 0x97]"

function str_nat :: "nat \<Rightarrow> string" where
  "str_nat n =
     (if n < 10 then [char_of (48 + n)]
      else str_nat (n div 10) @ [char_of (48 + n mod 10)])"
  by pat_completeness auto
termination
  by (relation "measure (\<lambda>n. n)") auto

declare str_nat.simps [simp del]

definition str_int :: "int \<Rightarrow> string" where
  "str_int i = (if i < 0 then CHR ''-'' # str_nat (nat (- i)) else str_nat (nat i))"

subsection \<open>The loop body (lines 61-91)\<close>

text \<open>
  \<^verbatim>\<open>trip['tripId']['S']\<close>: two subscripts, each raising \<^verbatim>\<open>KeyError\<close> when the key is
  missing: the attribute name when the item lacks the attribute, \<^verbatim>\<open>'S'\<close> when the
  attribute is not a string.
\<close>

definition trip_str :: "item \<Rightarrow> string \<Rightarrow> exn + string" where
  "trip_str trip a =
     (case trip a of
        None \<Rightarrow> Inl (KeyError a)
      | Some v \<Rightarrow> (case v of S s \<Rightarrow> Inr s | _ \<Rightarrow> Inl (KeyError ''S'')))"

text \<open>Lines 68-70: the branch taken when \<^verbatim>\<open>not broker_name\<close>.\<close>

definition no_broker_name :: "string \<Rightarrow> string \<Rightarrow> 'c script_state \<Rightarrow> 'c script_state" where
  "no_broker_name trip_id broker_id st =
     (let st1 = print (warning_sign @ '' Warning: No broker name found for '' @ broker_id
                       @ '' in trip '' @ trip_id) st
      in st1\<lparr>failed := failed st1 + 1\<rparr>)"

text \<open>The request of lines 76-86.\<close>

definition update_request :: "string \<Rightarrow> string \<Rightarrow> update_item_request" where
  "update_request trip_id broker_name =
     \<lparr>TableName = TRIPS_TABLE,
      Key = [''PK'' \<mapsto> S (''TRIP#'' @ trip_id), ''SK'' \<mapsto> S ''METADATA''],
      UpdateExpression = ''SET brokerName = :brokerName'',
      ExpressionAttributeValues = ['':brokerName'' \<mapsto> S broker_name]\<rparr>"

text \<open>
  Lines 72-91: the progress line, then the call inside \<^verbatim>\<open>try\<close>. Whatever exception the
  call raises is caught by \<^verbatim>\<open>except Exception\<close>; the client's state after the call is
  kept in both cases.
\<close>

definition update_trip ::
  "(update_item_request \<Rightarrow> 'c \<Rightarrow> (exn + unit) \<times> 'c) \<Rightarrow> string \<Rightarrow> string
     \<Rightarrow> 'c script_state \<Rightarrow> 'c script_state" where
  "update_trip update_item trip_id broker_name st =
     (let st1 = print (''Updating trip '' @ trip_id @ '' with broker: '' @ broker_name) st;
          req = update_request trip_id broker_name;
          (res, c) = update_item req (dynamodb st1);
          st2 = st1\<lparr>dynamodb := c, trace := trace st1 @ [UpdateItem req]\<rparr>
      in case res of
           Inr _ \<Rightarrow>
             (let st3 = print (check_mark @ '' Updated: '' @ trip_id) st2
              in st3\<lparr>updated := updated st3 + 1\<rparr>)
         | Inl e \<Rightarrow>
             (let st3 = print (ballot_x @ '' Failed: '' @ trip_id @ '' - '' @ str_exn e) st2
              in st3\<lparr>failed := failed st3 + 1\<rparr>))"

text \<open>
  One iteration. The two subscripts of lines 61-62 stand before the \<^verbatim>\<open>try\<close>, so their
  \<^verbatim>\<open>KeyError\<close> leaves the loop: the iteration's result is \<open>Inl\<close>. The dictionary is a
  parameter here; the script passes \<open>BROKER_NAMES\<close>. \<^verbatim>\<open>BROKER_NAMES.get(broker_id)\<close> is
  \<^verbatim>\<open>None\<close> for a missing key, and \<^verbatim>\<open>not broker_name\<close> holds for \<^verbatim>\<open>None\<close> and for the
  empty string.
\<close>

definition process_trip ::
  "(update_item_request \<Rightarrow> 'c \<Rightarrow> (exn + unit) \<times> 'c) \<Rightarrow> (string \<rightharpoonup> string) \<Rightarrow> item
     \<Rightarrow> 'c script_state \<Rightarrow> exn + 'c script_state" where
  "process_trip update_item names trip st =
     (case trip_str trip ''tripId'' of
        Inl e \<Rightarrow> Inl e
      | Inr trip_id \<Rightarrow>
          (case trip_str trip ''brokerId'' of
             Inl e \<Rightarrow> Inl e
           | Inr broker_id \<Rightarrow>
               (case names broker_id of
                  None \<Rightarrow> Inr (no_broker_name trip_id broker_id st)
                | Some broker_name \<Rightarrow>
                    if broker_name = [] then Inr (no_broker_name trip_id broker_id st)
                    else Inr (update_trip update_item trip_id broker_name st))))"

text \<open>
  The \<^verbatim>\<open>for\<close> loop of line 60. An exception that leaves an iteration ends the script:
  the result is the state reached and the exception.
\<close>

fun for_trips ::
  "(update_item_request \<Rightarrow> 'c \<Rightarrow> (exn + unit) \<times> 'c) \<Rightarrow> (string \<rightharpoonup> string) \<Rightarrow> item list
     \<Rightarrow> 'c script_state \<Rightarrow> 'c script_state \<times> exn option" where
  "for_trips update_item names [] st = (st, None)"
| "for_trips update_item names (trip # trips) st =
     (case process_trip update_item names trip st of
        Inl e \<Rightarrow> (st, Some e)
      | Inr st' \<Rightarrow> for_trips update_item names trips st')"

subsection \<open>The script (lines 35-99)\<close>

definition banner :: "'c script_state \<Rightarrow> 'c script_state" where
  "banner st =
     print [] (print (''Environment: '' @ ENVIRONMENT) (print (''AWS Profile: '' @ AWS_PROFILE)
       (print [] (print ''=========================================''
         (print ''Fixing Broker Names in Trips''
           (print ''========================================='' st))))))"

definition summary :: "'c script_state \<Rightarrow> 'c script_state" where
  "summary st =
     print [] (print (''Failed: '' @ str_int (failed st) @ '' trips'')
       (print (''Updated: '' @ str_int (updated st) @ '' trips'')
         (print ''=========================================''
           (print ''Update Complete!''
             (print ''========================================='' (print [] st))))))"

text \<open>
  \<open>run\<close> is the script from line 35 on, started with the client that lines 44-45 create.
  An exception of \<^verbatim>\<open>scan\<close> is not caught and ends the script, as does one that leaves the
  loop; the summary is printed only when the loop ends normally.
\<close>

definition run ::
  "(string \<Rightarrow> 'c \<Rightarrow> (exn + scan_response) \<times> 'c)
     \<Rightarrow> (update_item_request \<Rightarrow> 'c \<Rightarrow> (exn + unit) \<times> 'c) \<Rightarrow> 'c
     \<Rightarrow> 'c script_state \<times> exn option" where
  "run scan update_item client =
     (let st0 = banner \<lparr>dynamodb = client, trace = [], updated = 0, failed = 0\<rparr>;
          st1 = print ''Fetching all trips...'' st0;
          (res, c) = scan TRIPS_TABLE (dynamodb st1);
          st2 = st1\<lparr>dynamodb := c, trace := trace st1 @ [Scan TRIPS_TABLE]\<rparr>
      in case res of
           Inl e \<Rightarrow> (st2, Some e)
         | Inr response \<Rightarrow>
             (let trips = Items response;
                  st3 = print [] (print (''Found '' @ str_int (int (length trips))
                                         @ '' trips to update'') st2);
                  st4 = st3\<lparr>updated := 0, failed := 0\<rparr>
              in case for_trips update_item BROKER_NAMES trips st4 of
                   (st5, Some e) \<Rightarrow> (st5, Some e)
                 | (st5, None) \<Rightarrow> (summary st5, None)))"

subsection \<open>What a run is observed by\<close>

text \<open>The requests a trace holds, in the order they were sent.\<close>

fun update_requests :: "effect list \<Rightarrow> update_item_request list" where
  "update_requests [] = []"
| "update_requests (UpdateItem r # es) = r # update_requests es"
| "update_requests (e # es) = update_requests es"

fun scans :: "effect list \<Rightarrow> string list" where
  "scans [] = []"
| "scans (Scan t # es) = t # scans es"
| "scans (e # es) = scans es"

text \<open>
  The two strings lines 61-62 read from an item, when both subscripts succeed; the name
  line 67 lets through (\<^verbatim>\<open>not broker_name\<close> is false); and the request an item leads
  to, if any.
\<close>

definition trip_ids :: "item \<Rightarrow> (string \<times> string) option" where
  "trip_ids trip =
     (case trip_str trip ''tripId'' of
        Inl _ \<Rightarrow> None
      | Inr trip_id \<Rightarrow>
          (case trip_str trip ''brokerId'' of
             Inl _ \<Rightarrow> None
           | Inr broker_id \<Rightarrow> Some (trip_id, broker_id)))"

definition well_formed :: "item \<Rightarrow> bool" where
  "well_formed trip = (trip_ids trip \<noteq> None)"

definition resolve :: "(string \<rightharpoonup> string) \<Rightarrow> string \<Rightarrow> string option" where
  "resolve names broker_id =
     (case names broker_id of
        None \<Rightarrow> None
      | Some broker_name \<Rightarrow> if broker_name = [] then None else Some broker_name)"

definition trip_update :: "(string \<rightharpoonup> string) \<Rightarrow> item \<Rightarrow> update_item_request option" where
  "trip_update names trip =
     (case trip_ids trip of
        None \<Rightarrow> None
      | Some (trip_id, broker_id) \<Rightarrow> map_option (update_request trip_id) (resolve names broker_id))"

text \<open>
  The state in which the loop of line 60 starts, after a scan that answered \<open>trips\<close> and
  left the client as \<open>c\<close>.
\<close>

definition loop_entry :: "'c \<Rightarrow> item list \<Rightarrow> 'c script_state" where
  "loop_entry c trips =
     (print [] (print (''Found '' @ str_int (int (length trips)) @ '' trips to update'')
        ((print ''Fetching all trips...''
            (banner \<lparr>dynamodb = c, trace = [], updated = 0, failed = 0\<rparr>))
         \<lparr>trace := trace (print ''Fetching all trips...''
                      (banner \<lparr>dynamodb = c, trace = [], updated = 0, failed = 0\<rparr>))
                    @ [Scan TRIPS_TABLE]\<rparr>)))"

subsection \<open>A store behind the client\<close>

text \<open>
  The script's source holds no store: it talks to DynamoDB through the client. The
  statements about stored records need one, so the client is instantiated with a small
  store that does what the service does on the two requests the script sends.
\<close>

text \<open>
  Modelled from the spec: the table behind the client, which is not part of the
  repository. A record is identified by its composite key (partition key, sort key); a
  table is a list of rows, each an item under its key, in the order a scan walks them.
  \<open>page\<close> is the number of items one scan response carries.
\<close>

type_synonym key = "string \<times> string"

type_synonym table = "(key \<times> item) list"

record ddb =
  table_name :: string
  rows :: table
  page :: nat

text \<open>
  Modelled from the spec: how the store reads the update expression of a request. Only
  the form \<^verbatim>\<open>SET attr = :placeholder\<close> is read; it gives the attribute to set and the
  placeholder that names the value.
\<close>

fun split_on :: "char \<Rightarrow> string \<Rightarrow> string list" where
  "split_on c [] = [] # []"
| "split_on c (x # xs) =
     (if x = c then [] # split_on c xs
      else (case split_on c xs of [] \<Rightarrow> [x] # [] | w # ws \<Rightarrow> (x # w) # ws))"

definition parse_set :: "string \<Rightarrow> (string \<times> string) option" where
  "parse_set e =
     (case split_on CHR '' '' e of
        [kw, a, eq, p] \<Rightarrow> if kw = ''SET'' \<and> eq = ''='' then Some (a, p) else None
      | _ \<Rightarrow> None)"

text \<open>
  Modelled from the spec: setting one attribute of the record under a key. The other
  attributes of the record and all other records stay; as in DynamoDB, a record that does
  not exist is created from the key.
\<close>

definition key_item :: "key \<Rightarrow> item" where
  "key_item k = [''PK'' \<mapsto> S (fst k), ''SK'' \<mapsto> S (snd k)]"

fun set_attr :: "key \<Rightarrow> string \<Rightarrow> attr_value \<Rightarrow> table \<Rightarrow> table" where
  "set_attr k a v [] = [(k, (key_item k)(a \<mapsto> v))]"
| "set_attr k a v (r # rs) =
     (if fst r = k then (k, (snd r)(a \<mapsto> v)) # rs else r # set_attr k a v rs)"

text \<open>
  Modelled from the spec: \<^verbatim>\<open>scan(table) -> items\<close>. The response carries the first
  \<open>page\<close> rows of the table, and a \<^verbatim>\<open>LastEvaluatedKey\<close> when rows remain. A table name
  the store does not know is an error of the client.
\<close>

definition ddb_scan :: "string \<Rightarrow> ddb \<Rightarrow> (exn + scan_response) \<times> ddb" where
  "ddb_scan tn db =
     (if tn \<noteq> table_name db then (Inl (ClientError ''ResourceNotFoundException''), db)
      else (Inr \<lparr>Items = map snd (take (page db) (rows db)),
                 LastEvaluatedKey =
                   (case (drop (page db) (rows db), rev (take (page db) (rows db))) of
                      (_ # _, r # _) \<Rightarrow> Some (key_item (fst r))
                    | _ \<Rightarrow> None)\<rparr>, db))"

text \<open>
  Modelled from the spec: \<^verbatim>\<open>update_item(table, key, update_expression, values) ->
  ack/error\<close>. \<open>fault\<close> says which requests the store refuses (throttling, connectivity,
  ...) and with which error; a refused request changes nothing. A request that is not
  refused sets the attribute its expression names on the record under its key.
\<close>

definition ddb_update_item ::
  "(update_item_request \<Rightarrow> exn option) \<Rightarrow> update_item_request \<Rightarrow> ddb
     \<Rightarrow> (exn + unit) \<times> ddb" where
  "ddb_update_item fault req db =
     (case fault req of
        Some e \<Rightarrow> (Inl e, db)
      | None \<Rightarrow>
          if TableName req \<noteq> table_name db
          then (Inl (ClientError ''ResourceNotFoundException''), db)
          else (case (Key req ''PK'', Key req ''SK'', parse_set (UpdateExpression req)) of
                  (Some (S pk), Some (S sk), Some (a, p)) \<Rightarrow>
                    (case ExpressionAttributeValues req p of
                       Some v \<Rightarrow> (Inr (), db\<lparr>rows := set_attr (pk, sk) a v (rows db)\<rparr>)
                     | None \<Rightarrow> (Inl (ClientError ''ValidationException''), db))
                | _ \<Rightarrow> (Inl (ClientError ''ValidationException''), db)))"

definition no_fault :: "update_item_request \<Rightarrow> exn option" where
  "no_fault req = None"

text \<open>
  Modelled from the spec: the data model of the trips table. Every row is a trip record, an item with a string
  \<^verbatim>\<open>tripId\<close> and a string \<^verbatim>\<open>brokerId\<close> stored under the key
  (\<^verbatim>\<open>TRIP#<tripId>\<close>, \<^verbatim>\<open>METADATA\<close>), and keys are unique. The script addresses a
  record only by the key it builds from the item's \<^verbatim>\<open>tripId\<close>, so this is what makes
  the item a scan returned and the record a request reaches the same thing; the
  statements about stored records are made for such tables.
\<close>

definition trip_key :: "string \<Rightarrow> key" where
  "trip_key trip_id = (''TRIP#'' @ trip_id, ''METADATA'')"

definition trip_row :: "key \<times> item \<Rightarrow> bool" where
  "trip_row r = (case trip_ids (snd r) of None \<Rightarrow> False | Some (trip_id, _) \<Rightarrow> fst r = trip_key trip_id)"

definition trips_table :: "ddb \<Rightarrow> bool" where
  "trips_table db =
     (table_name db = TRIPS_TABLE \<and> distinct (map fst (rows db)) \<and> list_all trip_row (rows db))"

text \<open>
  What a run is expected to leave of an item: the name written when the item's
  \<^verbatim>\<open>brokerId\<close> resolves and the request is not refused, the item as it was otherwise.
\<close>

definition backfill ::
  "(update_item_request \<Rightarrow> exn option) \<Rightarrow> (string \<rightharpoonup> string) \<Rightarrow> item \<Rightarrow> item" where
  "backfill fault names trip =
     (case trip_update names trip of
        None \<Rightarrow> trip
      | Some req \<Rightarrow>
          (case fault req of
             Some _ \<Rightarrow> trip
           | None \<Rightarrow>
               (case ExpressionAttributeValues req '':brokerName'' of
                  None \<Rightarrow> trip
                | Some v \<Rightarrow> trip(''brokerName'' \<mapsto> v))))"

subsection \<open>Example tables\<close>

definition trip_item :: "string \<Rightarrow> string \<Rightarrow> item" where
  "trip_item trip_id broker_id =
     (key_item (trip_key trip_id))(''tripId'' \<mapsto> S trip_id, ''brokerId'' \<mapsto> S broker_id)"

definition example_rows :: table where
  "example_rows =
     [(trip_key ''T1'', trip_item ''T1'' ''broker-001''),
      (trip_key ''T2'', trip_item ''T2'' ''broker-999''),
      (trip_key ''T3'', trip_item ''T3'' ''broker-002''),
      (trip_key ''T4'', trip_item ''T4'' ''broker-020'')]"

definition example_db :: ddb where
  "example_db = \<lparr>table_name = TRIPS_TABLE, rows = example_rows, page = 3\<rparr>"

definition example_fault :: "update_item_request \<Rightarrow> exn option" where
  "example_fault req =
     (if Key req ''PK'' = Some (S ''TRIP#T3'') then Some (ClientError ''ThrottlingException'')
      else None)"

text \<open>A table whose first item has no \<^verbatim>\<open>brokerId\<close>.\<close>

definition incomplete_db :: ddb where
  "incomplete_db =
     \<lparr>table_name = TRIPS_TABLE,
      rows = [(trip_key ''T0'', (key_item (trip_key ''T0''))(''tripId'' \<mapsto> S ''T0'')),
              (trip_key ''T1'', trip_item ''T1'' ''broker-001'')],
      page = 3\<rparr>"

section \<open>Properties\<close>

text \<open>The definitions that evaluating a run on an example table unfolds.\<close>

lemmas script_defs =
  run_def banner_def summary_def print_def Let_def process_trip_def trip_str_def
  no_broker_name_def update_trip_def update_request_def TRIPS_TABLE_def ENVIRONMENT_def
  AWS_PROFILE_def BROKER_NAMES_def

lemmas store_defs =
  ddb_scan_def ddb_update_item_def parse_set_def key_item_def trip_key_def trip_item_def
  example_db_def example_rows_def example_fault_def no_fault_def incomplete_db_def

subsection \<open>The loop body and the loop, for any client\<close>

text \<open>
  What one iteration and the loop do to the counters, the trace and the client, whatever
  the client answers.
\<close>

lemma BROKER_NAMES_nonempty: "BROKER_NAMES b = Some n \<Longrightarrow> n \<noteq> []"
  by (auto simp: BROKER_NAMES_def split: if_splits)

lemma resolve_BROKER_NAMES: "resolve BROKER_NAMES b = BROKER_NAMES b"
  by (auto simp: resolve_def dest: BROKER_NAMES_nonempty split: option.splits)

lemma update_requests_append:
  "update_requests (xs @ ys) = update_requests xs @ update_requests ys"
  by (induction xs rule: update_requests.induct) auto

lemma scans_append: "scans (xs @ ys) = scans xs @ scans ys"
  by (induction xs rule: scans.induct) auto

lemma trip_ids_iff:
  "(trip_ids trip = Some (tid, bid))
     = (trip ''tripId'' = Some (S tid) \<and> trip ''brokerId'' = Some (S bid))"
  by (auto simp: trip_ids_def trip_str_def split: option.splits attr_value.splits sum.splits)

lemma process_trip_ids:
  "trip_ids trip = Some (tid, bid) \<Longrightarrow>
   process_trip upd names trip st =
     (case resolve names bid of
        None \<Rightarrow> Inr (no_broker_name tid bid st)
      | Some n \<Rightarrow> Inr (update_trip upd tid n st))"
  by (auto simp: trip_ids_def process_trip_def resolve_def split: sum.splits option.splits)

lemma process_trip_Inl:
  "(\<exists>e. process_trip upd names trip st = Inl e) = (trip_ids trip = None)"
  by (auto simp: trip_ids_def process_trip_def split: sum.splits option.splits if_splits)

lemma no_broker_name_eq:
  "no_broker_name tid bid st =
     st\<lparr>trace := trace st @ [Print (warning_sign @ '' Warning: No broker name found for ''
                                      @ bid @ '' in trip '' @ tid)],
        failed := failed st + 1\<rparr>"
  by (simp add: no_broker_name_def print_def Let_def)

lemma update_trip_eq:
  "update_trip upd tid n st =
     (case upd (update_request tid n) (dynamodb st) of
        (Inr u, c) \<Rightarrow>
          st\<lparr>dynamodb := c,
             trace := trace st @ [Print (''Updating trip '' @ tid @ '' with broker: '' @ n),
                                  UpdateItem (update_request tid n),
                                  Print (check_mark @ '' Updated: '' @ tid)],
             updated := updated st + 1\<rparr>
      | (Inl e, c) \<Rightarrow>
          st\<lparr>dynamodb := c,
             trace := trace st @ [Print (''Updating trip '' @ tid @ '' with broker: '' @ n),
                                  UpdateItem (update_request tid n),
                                  Print (ballot_x @ '' Failed: '' @ tid @ '' - '' @ str_exn e)],
             failed := failed st + 1\<rparr>)"
  by (simp add: update_trip_def print_def Let_def split: prod.splits sum.splits)

lemma update_trip_count:
  "updated (update_trip upd tid n st) + failed (update_trip upd tid n st)
     = updated st + failed st + 1"
  by (simp add: update_trip_eq split: prod.splits sum.splits)

lemma update_trip_updates:
  "update_requests (trace (update_trip upd tid n st))
     = update_requests (trace st) @ [update_request tid n]"
  by (simp add: update_trip_eq update_requests_append split: prod.splits sum.splits)

lemma process_trip_count:
  "process_trip upd names trip st = Inr st' \<Longrightarrow>
   updated st' + failed st' = updated st + failed st + 1"
  by (auto simp: process_trip_def update_trip_count no_broker_name_eq
           split: sum.splits option.splits if_splits)

lemma process_trip_updates:
  "process_trip upd names trip st = Inr st' \<Longrightarrow>
   update_requests (trace st')
     = update_requests (trace st) @ (case trip_update names trip of None \<Rightarrow> [] | Some r \<Rightarrow> [r])"
proof (cases "trip_ids trip")
  case None
  assume "process_trip upd names trip st = Inr st'"
  with None process_trip_Inl [of upd names trip st] show ?thesis by simp
next
  case (Some p)
  assume h: "process_trip upd names trip st = Inr st'"
  obtain tid bid where p: "p = (tid, bid)" by (cases p)
  from h Some p show ?thesis
    by (auto simp: process_trip_ids trip_update_def no_broker_name_eq update_trip_updates
        update_requests_append split: option.splits)
qed


lemma trip_update_Some:
  "trip_update names trip = Some r \<Longrightarrow>
   \<exists>tid bid n. trip ''tripId'' = Some (S tid) \<and> trip ''brokerId'' = Some (S bid)
     \<and> resolve names bid = Some n \<and> r = update_request tid n"
  by (auto simp: trip_update_def trip_ids_iff split: option.splits)

lemma map_filter_in:
  "r \<in> set (List.map_filter f xs) \<Longrightarrow> \<exists>x \<in> set xs. f x = Some r"
  by (auto simp: map_filter_def)

lemma takeWhile_all: "list_all P xs \<Longrightarrow> takeWhile P xs = xs"
  by (induction xs) auto

lemma for_trips_count:
  "for_trips upd names trips st = (st', None) \<Longrightarrow>
   updated st' + failed st' = updated st + failed st + int (length trips)"
proof (induction trips arbitrary: st)
  case Nil
  then show ?case by simp
next
  case (Cons trip trips)
  then show ?case
    by (auto split: sum.splits dest!: process_trip_count)
qed



lemma for_trips_well_formed:
  "list_all well_formed trips \<Longrightarrow> snd (for_trips upd names trips st) = None"
proof (induction trips arbitrary: st)
  case Nil
  then show ?case by simp
next
  case (Cons trip trips)
  from Cons.prems have "trip_ids trip \<noteq> None" by (simp add: well_formed_def)
  then obtain st' where "process_trip upd names trip st = Inr st'"
    using process_trip_Inl [of upd names trip st] by (cases "process_trip upd names trip st") auto
  with Cons show ?case by simp
qed


lemma for_trips_updates:
  "update_requests (trace (fst (for_trips upd names trips st)))
     = update_requests (trace st)
       @ List.map_filter (trip_update names) (takeWhile well_formed trips)"
proof (induction trips arbitrary: st)
  case Nil
  then show ?case by (simp add: map_filter_simps)
next
  case (Cons trip trips)
  show ?case
  proof (cases "process_trip upd names trip st")
    case (Inl e)
    then have "trip_ids trip = None" using process_trip_Inl [of upd names trip st] by auto
    with Inl show ?thesis by (simp add: well_formed_def map_filter_simps)
  next
    case (Inr st')
    then have "trip_ids trip \<noteq> None" using process_trip_Inl [of upd names trip st] by auto
    with Inr Cons.IH [of st'] process_trip_updates [OF Inr] show ?thesis
      by (simp add: well_formed_def map_filter_simps split: option.splits)
  qed
qed




subsection \<open>The script, for any client\<close>

text \<open>
  The script is the loop between the scan and the summary: after a scan that answered, a
  run is the loop over the items of the response, started in \<open>loop_entry\<close>.
\<close>

lemma run_scan_ok:
  "scan TRIPS_TABLE c = (Inr resp, c') \<Longrightarrow>
   run scan upd c =
     (case for_trips upd BROKER_NAMES (Items resp) (loop_entry c' (Items resp)) of
        (st5, Some e) \<Rightarrow> (st5, Some e)
      | (st5, None) \<Rightarrow> (summary st5, None))"
  by (simp add: run_def loop_entry_def banner_def print_def Let_def)

lemma run_scan_err:
  "scan TRIPS_TABLE c = (Inl e, c') \<Longrightarrow>
   snd (run scan upd c) = Some e \<and> update_requests (trace (fst (run scan upd c))) = []
   \<and> scans (trace (fst (run scan upd c))) = [TRIPS_TABLE]
   \<and> updated (fst (run scan upd c)) = 0 \<and> failed (fst (run scan upd c)) = 0"
  by (simp add: run_def banner_def print_def Let_def update_requests_append scans_append)

lemma loop_entry_fields:
  "dynamodb (loop_entry c trips) = c"
  "updated (loop_entry c trips) = 0"
  "failed (loop_entry c trips) = 0"
  "update_requests (trace (loop_entry c trips)) = []"
  "scans (trace (loop_entry c trips)) = [TRIPS_TABLE]"
  by (simp_all add: loop_entry_def banner_def print_def update_requests_append scans_append)


lemma summary_fields:
  "dynamodb (summary st) = dynamodb st"
  "updated (summary st) = updated st"
  "failed (summary st) = failed st"
  "update_requests (trace (summary st)) = update_requests (trace st)"
  "scans (trace (summary st)) = scans (trace st)"
  by (simp_all add: summary_def print_def update_requests_append scans_append)



lemma run_count:
  assumes "run scan upd c = (st, None)" and "fst (scan TRIPS_TABLE c) = Inr resp"
  shows "updated st + failed st = int (length (Items resp))"
proof -
  obtain c' where sc: "scan TRIPS_TABLE c = (Inr resp, c')"
    using assms(2) by (cases "scan TRIPS_TABLE c") auto
  obtain st5 x where ft: "for_trips upd BROKER_NAMES (Items resp) (loop_entry c' (Items resp)) = (st5, x)"
    by (cases "for_trips upd BROKER_NAMES (Items resp) (loop_entry c' (Items resp))")
  from assms(1) ft have x: "x = None" and st: "st = summary st5"
    by (auto simp: run_scan_ok [where scan = scan, OF sc] split: option.splits)
  from for_trips_count [OF ft [unfolded x]] show ?thesis
    by (simp add: st summary_fields loop_entry_fields)
qed

lemma run_updates:
  assumes "fst (scan TRIPS_TABLE c) = Inr resp"
  shows "update_requests (trace (fst (run scan upd c)))
           = List.map_filter (trip_update BROKER_NAMES) (takeWhile well_formed (Items resp))"
proof -
  obtain c' where sc: "scan TRIPS_TABLE c = (Inr resp, c')"
    using assms by (cases "scan TRIPS_TABLE c") auto
  let ?f = "for_trips upd BROKER_NAMES (Items resp) (loop_entry c' (Items resp))"
  have "update_requests (trace (fst (run scan upd c))) = update_requests (trace (fst ?f))"
    by (cases ?f) (auto simp: run_scan_ok [where scan = scan, OF sc] summary_fields
        split: option.splits)
  then show ?thesis
    by (simp add: for_trips_updates loop_entry_fields)
qed

lemma run_well_formed:
  assumes "fst (scan TRIPS_TABLE c) = Inr resp" and "list_all well_formed (Items resp)"
  shows "snd (run scan upd c) = None"
proof -
  obtain c' where sc: "scan TRIPS_TABLE c = (Inr resp, c')"
    using assms(1) by (cases "scan TRIPS_TABLE c") auto
  let ?f = "for_trips upd BROKER_NAMES (Items resp) (loop_entry c' (Items resp))"
  from for_trips_well_formed [OF assms(2)] have "snd ?f = None" .
  then show ?thesis
    by (cases ?f) (auto simp: run_scan_ok [where scan = scan, OF sc])
qed


lemma run_update_from_item:
  assumes "r \<in> set (update_requests (trace (fst (run scan upd c))))"
  shows "\<exists>resp trip. fst (scan TRIPS_TABLE c) = Inr resp \<and> trip \<in> set (Items resp)
           \<and> trip_update BROKER_NAMES trip = Some r"
proof (cases "fst (scan TRIPS_TABLE c)")
  case (Inl e)
  then obtain c' where "scan TRIPS_TABLE c = (Inl e, c')"
    by (cases "scan TRIPS_TABLE c") auto
  from run_scan_err [where scan = scan, OF this, of upd] assms show ?thesis by simp
next
  case (Inr resp)
  from assms run_updates [where scan = scan, OF Inr, of upd]
  have "r \<in> set (List.map_filter (trip_update BROKER_NAMES) (takeWhile well_formed (Items resp)))"
    by simp
  then obtain trip where "trip \<in> set (takeWhile well_formed (Items resp))"
    and "trip_update BROKER_NAMES trip = Some r"
    by (auto dest: map_filter_in)
  with Inr show ?thesis by (auto dest: set_takeWhileD)
qed


subsection \<open>The loop on the store\<close>

text \<open>
  On a trips table the request for a row reaches that row and no other, so the loop over
  rows of the table rewrites them one by one with \<open>backfill\<close>.
\<close>

lemma ddb_update_item_trip:
  "table_name db = TRIPS_TABLE \<Longrightarrow>
   ddb_update_item fault (update_request tid n) db =
     (case fault (update_request tid n) of
        Some e \<Rightarrow> (Inl e, db)
      | None \<Rightarrow> (Inr (), db\<lparr>rows := set_attr (trip_key tid) ''brokerName'' (S n) (rows db)\<rparr>))"
  by (simp add: ddb_update_item_def update_request_def parse_set_def trip_key_def
      split: option.splits)

lemma set_attr_at:
  "k \<notin> fst ` set pre \<Longrightarrow>
   set_attr k a v (pre @ (k, it) # post) = pre @ (k, it(a \<mapsto> v)) # post"
  by (induction pre) auto


lemma backfill_ids:
  "trip_ids trip = Some (tid, bid) \<Longrightarrow>
   backfill fault names trip =
     (case resolve names bid of
        None \<Rightarrow> trip
      | Some n \<Rightarrow> (case fault (update_request tid n) of
                    Some e \<Rightarrow> trip
                  | None \<Rightarrow> trip(''brokerName'' \<mapsto> S n)))"
  by (simp add: backfill_def trip_update_def update_request_def split: option.splits)









lemma process_trip_row:
  assumes "trip_row (k, trip)"
      and "table_name (dynamodb st) = TRIPS_TABLE"
      and "rows (dynamodb st) = pre @ (k, trip) # post"
      and "k \<notin> fst ` set pre"
  shows "\<exists>st'. process_trip (ddb_update_item fault) names trip st = Inr st'
           \<and> rows (dynamodb st') = pre @ (k, backfill fault names trip) # post
           \<and> table_name (dynamodb st') = TRIPS_TABLE
           \<and> page (dynamodb st') = page (dynamodb st)"
proof -
  from assms(1) obtain tid bid where ids: "trip_ids trip = Some (tid, bid)" and k: "k = trip_key tid"
    by (auto simp: trip_row_def split: option.splits)
  show ?thesis
    using assms(2-4)
    by (auto simp: process_trip_ids [OF ids] backfill_ids [OF ids] no_broker_name_eq
        update_trip_eq ddb_update_item_trip k set_attr_at split: option.splits)
qed

lemma for_trips_rows:
  assumes "list_all trip_row xs"
      and "distinct (map fst (pre @ xs))"
      and "rows (dynamodb st) = pre @ xs @ post"
      and "table_name (dynamodb st) = TRIPS_TABLE"
  shows "\<exists>st'. for_trips (ddb_update_item fault) names (map snd xs) st = (st', None)
           \<and> rows (dynamodb st') = pre @ map (\<lambda>(k, it). (k, backfill fault names it)) xs @ post
           \<and> table_name (dynamodb st') = TRIPS_TABLE
           \<and> page (dynamodb st') = page (dynamodb st)"
  using assms
proof (induction xs arbitrary: pre st)
  case Nil
  then show ?case by simp
next
  case (Cons r xs)
  obtain k trip where r: "r = (k, trip)" by (cases r)
  from Cons.prems r have row: "trip_row (k, trip)" and notin: "k \<notin> fst ` set pre"
    and rs: "rows (dynamodb st) = pre @ (k, trip) # (xs @ post)"
    by auto
  from process_trip_row [OF row Cons.prems(4) rs notin, of fault names]
  obtain st1 where p: "process_trip (ddb_update_item fault) names trip st = Inr st1"
    and r1: "rows (dynamodb st1) = (pre @ [(k, backfill fault names trip)]) @ xs @ post"
    and t1: "table_name (dynamodb st1) = TRIPS_TABLE"
    and p1: "page (dynamodb st1) = page (dynamodb st)"
    by auto
  from Cons.prems r have all: "list_all trip_row xs"
    and d: "distinct (map fst ((pre @ [(k, backfill fault names trip)]) @ xs))"
    by auto
  from Cons.IH [OF all d r1 t1] p p1 r show ?case by auto
qed



subsection \<open>The script on a trips table\<close>

text \<open>
  A run on a trips table ends normally and leaves the table with the rows of the scan
  response rewritten by \<open>backfill\<close>; a second run on the table it left finds
  nothing to change.
\<close>

lemma ddb_run:
  assumes "trips_table db"
  shows "snd (run ddb_scan (ddb_update_item fault) db) = None"
    and "dynamodb (fst (run ddb_scan (ddb_update_item fault) db)) =
           db\<lparr>rows := map (\<lambda>(k, it). (k, backfill fault BROKER_NAMES it)) (take (page db) (rows db))
                        @ drop (page db) (rows db)\<rparr>"
proof -
  let ?xs = "take (page db) (rows db)"
  let ?resp = "fst (ddb_scan TRIPS_TABLE db)"
  from assms have tn: "table_name db = TRIPS_TABLE" by (simp add: trips_table_def)
  obtain resp where sc: "ddb_scan TRIPS_TABLE db = (Inr resp, db)" and it: "Items resp = map snd ?xs"
    using tn by (simp add: ddb_scan_def)
  have all: "list_all trip_row ?xs"
    using assms by (auto simp: trips_table_def list_all_iff dest: in_set_takeD)
  have d: "distinct (map fst ([] @ ?xs))"
    using assms by (simp add: trips_table_def distinct_take take_map [symmetric])
  have rs: "rows (dynamodb (loop_entry db (Items resp))) = [] @ ?xs @ drop (page db) (rows db)"
    by (simp add: loop_entry_fields)
  have tn': "table_name (dynamodb (loop_entry db (Items resp))) = TRIPS_TABLE"
    by (simp add: loop_entry_fields tn)
  from for_trips_rows [OF all d rs tn', of fault BROKER_NAMES]
  obtain st' where ft: "for_trips (ddb_update_item fault) BROKER_NAMES (Items resp) (loop_entry db (Items resp)) = (st', None)"
    and r': "rows (dynamodb st') = map (\<lambda>(k, it). (k, backfill fault BROKER_NAMES it)) ?xs @ drop (page db) (rows db)"
    and t': "table_name (dynamodb st') = TRIPS_TABLE"
    and p': "page (dynamodb st') = page db"
    by (auto simp: it loop_entry_fields)
  show "snd (run ddb_scan (ddb_update_item fault) db) = None"
    by (simp add: run_scan_ok [where scan = ddb_scan, OF sc] ft)
  show "dynamodb (fst (run ddb_scan (ddb_update_item fault) db)) =
           db\<lparr>rows := map (\<lambda>(k, it). (k, backfill fault BROKER_NAMES it)) ?xs @ drop (page db) (rows db)\<rparr>"
    using r' t' p' tn by (simp add: run_scan_ok [where scan = ddb_scan, OF sc] ft summary_fields)
qed













subsection \<open>The example tables\<close>

text \<open>
  Facts about the example tables, for the instances of the claims below.
\<close>

lemma example_trips_table: "trips_table example_db"
  by (simp add: trips_table_def example_db_def example_rows_def trip_row_def trip_ids_def
      trip_str_def trip_item_def trip_key_def key_item_def)

lemma example_run_completes:
  "snd (run ddb_scan (ddb_update_item example_fault) example_db) = None"
  by (rule ddb_run(1) [OF example_trips_table])

lemma example_scan:
  "fst (ddb_scan TRIPS_TABLE example_db) =
     Inr \<lparr>Items = map snd (take 3 example_rows),
          LastEvaluatedKey = Some (key_item (trip_key ''T3''))\<rparr>"
  by (simp add: ddb_scan_def example_db_def example_rows_def)

lemma example_ids:
  "trip_ids (trip_item tid bid) = Some (tid, bid)"
  by (simp add: trip_ids_iff trip_item_def)

lemma example_updates:
  "List.map_filter (trip_update BROKER_NAMES) (map snd (take 3 example_rows))
     = [update_request ''T1'' ''C.H. Robinson'', update_request ''T3'' ''XPO Logistics'']"
  by (simp add: example_rows_def map_filter_simps trip_update_def example_ids resolve_def
      BROKER_NAMES_def)

lemma example_well_formed: "list_all well_formed (map snd (take 3 example_rows))"
  by (simp add: example_rows_def well_formed_def example_ids)

lemma example_run_updates:
  "update_requests (trace (fst (run ddb_scan (ddb_update_item fault) example_db)))
     = [update_request ''T1'' ''C.H. Robinson'', update_request ''T3'' ''XPO Logistics'']"
  using run_updates [where scan = ddb_scan, OF example_scan, of "ddb_update_item fault"]
  by (simp add: example_updates takeWhile_all example_well_formed)




lemma example_update_refused:
  "ddb_update_item example_fault (update_request ''T3'' ''XPO Logistics'') example_db
     = (Inl (ClientError ''ThrottlingException''), example_db)"
  by (simp add: ddb_update_item_def example_fault_def update_request_def)


subsection \<open>The claims\<close>





text \<open>
  C3. When the script runs to its end, the two counters add up to the number of items
  the scan returned. Every item goes to exactly one of them: an iteration that does not
  raise adds one to \<^verbatim>\<open>updated\<close> and leaves \<^verbatim>\<open>failed\<close>, or adds one to \<^verbatim>\<open>failed\<close> and
  leaves \<^verbatim>\<open>updated\<close>.
\<close>

theorem C3_counters_sum_to_scan_size:
  assumes "run scan update_item client = (st, None)"
      and "fst (scan TRIPS_TABLE client) = Inr response"
  shows "updated st + failed st = int (length (Items response))
         \<and> (process_trip update_item names trip s = Inr s' \<longrightarrow>
              (updated s' = updated s + 1 \<and> failed s' = failed s)
              \<or> (updated s' = updated s \<and> failed s' = failed s + 1))"
proof -
  have "process_trip update_item names trip s = Inr s' \<longrightarrow>
          (updated s' = updated s + 1 \<and> failed s' = failed s)
          \<or> (updated s' = updated s \<and> failed s' = failed s + 1)"
    by (auto simp: process_trip_def no_broker_name_eq update_trip_eq
        split: sum.splits option.splits if_splits prod.splits)
  with run_count [OF assms] show ?thesis by simp
qed

theorem C3_witness:
  "snd (run ddb_scan (ddb_update_item example_fault) example_db) = None
   \<and> updated (fst (run ddb_scan (ddb_update_item example_fault) example_db))
     + failed (fst (run ddb_scan (ddb_update_item example_fault) example_db)) = 3"
proof -
  let ?r = "run ddb_scan (ddb_update_item example_fault) example_db"
  define response where
    "response = \<lparr>Items = map snd (take 3 example_rows),
                  LastEvaluatedKey = Some (key_item (trip_key ''T3''))\<rparr>"
  have h1: "?r = (fst ?r, None)"
    using example_run_completes by (simp add: prod_eq_iff)
  have h2: "fst (ddb_scan TRIPS_TABLE example_db) = Inr response"
    by (simp add: ddb_scan_def example_db_def example_rows_def response_def)
  have "length (Items response) = 3"
    by (simp add: response_def example_rows_def)
  with C3_counters_sum_to_scan_size [OF h1 h2, THEN conjunct1] example_run_completes
  show ?thesis by simp
qed

text \<open>
  C4, as stated, fails: the claim is that any failure while an item is processed is caught
  and logged, counted as failed, and never ends the loop. The two subscripts of lines
  61-62 stand before the \<^verbatim>\<open>try\<close>. On a table whose first item has no \<^verbatim>\<open>brokerId\<close>
  the script ends with the \<^verbatim>\<open>KeyError\<close>: nothing is counted as failed, and the second
  item, whose \<^verbatim>\<open>brokerId\<close> is in the dictionary, is never reached (no request is sent).
\<close>

theorem C4_counterexample:
  "snd (run ddb_scan (ddb_update_item no_fault) incomplete_db) = Some (KeyError ''brokerId'')
   \<and> failed (fst (run ddb_scan (ddb_update_item no_fault) incomplete_db)) = 0
   \<and> update_requests (trace (fst (run ddb_scan (ddb_update_item no_fault) incomplete_db))) = []"
  by (simp add: script_defs store_defs)

text \<open>
  C4, amended. For an item that has a string \<^verbatim>\<open>tripId\<close> and a string \<^verbatim>\<open>brokerId\<close>,
  whatever \<^verbatim>\<open>update_item\<close> raises is caught: the failure line with the exception's text
  is printed, \<^verbatim>\<open>failed\<close> goes up by one, and the loop goes on with the remaining items;
  when all of those have both strings too, the loop runs to its end. An item that lacks
  one of the two strings raises a \<^verbatim>\<open>KeyError\<close> that is not caught and ends the loop
  there.
\<close>

theorem C4_update_errors_caught:
  assumes "trip ''tripId'' = Some (S trip_id)"
      and "trip ''brokerId'' = Some (S broker_id)"
      and "BROKER_NAMES broker_id = Some broker_name"
      and "update_item (update_request trip_id broker_name) (dynamodb st) = (Inl e, c)"
  shows "for_trips update_item BROKER_NAMES (trip # rest) st
           = for_trips update_item BROKER_NAMES rest
               (st\<lparr>dynamodb := c,
                   trace := trace st
                     @ [Print (''Updating trip '' @ trip_id @ '' with broker: '' @ broker_name),
                        UpdateItem (update_request trip_id broker_name),
                        Print (ballot_x @ '' Failed: '' @ trip_id @ '' - '' @ str_exn e)],
                   failed := failed st + 1\<rparr>)
         \<and> (list_all well_formed rest \<longrightarrow>
              snd (for_trips update_item BROKER_NAMES (trip # rest) st) = None)
         \<and> (\<not> well_formed other \<longrightarrow>
              (\<exists>k. for_trips update_item BROKER_NAMES (other # rest) st = (st, Some (KeyError k))))"
proof -
  from assms(1,2) have ids: "trip_ids trip = Some (trip_id, broker_id)"
    by (simp add: trip_ids_iff)
  have step: "process_trip update_item BROKER_NAMES trip st
    = Inr (st\<lparr>dynamodb := c,
                   trace := trace st
                     @ [Print (''Updating trip '' @ trip_id @ '' with broker: '' @ broker_name),
                        UpdateItem (update_request trip_id broker_name),
                        Print (ballot_x @ '' Failed: '' @ trip_id @ '' - '' @ str_exn e)],
                   failed := failed st + 1\<rparr>)"
    using assms(3,4)
    by (simp add: process_trip_ids [OF ids] resolve_BROKER_NAMES update_trip_eq)
  have wf: "well_formed trip" using ids by (simp add: well_formed_def)
  have "list_all well_formed rest \<longrightarrow>
          snd (for_trips update_item BROKER_NAMES (trip # rest) st) = None"
    using wf for_trips_well_formed [of "trip # rest" update_item BROKER_NAMES st] by simp
  moreover have "\<not> well_formed other \<longrightarrow>
     (\<exists>k. for_trips update_item BROKER_NAMES (other # rest) st = (st, Some (KeyError k)))"
    by (auto simp: well_formed_def trip_ids_def process_trip_def trip_str_def
        split: sum.splits option.splits attr_value.splits)
  ultimately show ?thesis using step by simp
qed

theorem C4_witness:
  "for_trips (ddb_update_item example_fault) BROKER_NAMES [trip_item ''T3'' ''broker-002'']
     \<lparr>dynamodb = example_db, trace = [], updated = 0, failed = 0\<rparr>
   = (\<lparr>dynamodb = example_db,
       trace = [Print (''Updating trip '' @ ''T3'' @ '' with broker: '' @ ''XPO Logistics''),
                UpdateItem (update_request ''T3'' ''XPO Logistics''),
                Print (ballot_x @ '' Failed: '' @ ''T3'' @ '' - '' @ ''ThrottlingException'')],
       updated = 0, failed = 1\<rparr>, None)"
proof -
  have h1: "trip_item ''T3'' ''broker-002'' ''tripId'' = Some (S ''T3'')"
    and h2: "trip_item ''T3'' ''broker-002'' ''brokerId'' = Some (S ''broker-002'')"
    by (simp_all add: trip_item_def)
  have h3: "BROKER_NAMES ''broker-002'' = Some ''XPO Logistics''"
    by (simp add: BROKER_NAMES_def)
  have h4: "ddb_update_item example_fault (update_request ''T3'' ''XPO Logistics'')
              (dynamodb \<lparr>dynamodb = example_db, trace = [], updated = 0, failed = 0\<rparr>)
            = (Inl (ClientError ''ThrottlingException''), example_db)"
    by (simp add: example_update_refused)
  from C4_update_errors_caught [where trip = "trip_item ''T3'' ''broker-002''"
      and update_item = "ddb_update_item example_fault" and rest = "[]",
      OF h1 h2 h3 h4, THEN conjunct1]
  show ?thesis by simp
qed



text \<open>
  C6. Every request the script sends with \<^verbatim>\<open>update_item\<close> names the table
  \<^verbatim>\<open>HaulHub-TripsTable-dev\<close>, which is \<^verbatim>\<open>HaulHub-TripsTable-\<close> followed by the
  environment, and its key is the partition key \<^verbatim>\<open>TRIP#\<close> followed by the
  \<^verbatim>\<open>tripId\<close> of an item of the scan response, with the sort key \<^verbatim>\<open>METADATA\<close>.
\<close>

theorem C6_update_target:
  assumes "r \<in> set (update_requests (trace (fst (run scan update_item client))))"
  shows "TableName r = ''HaulHub-TripsTable-dev''
         \<and> TableName r = ''HaulHub-TripsTable-'' @ ENVIRONMENT
         \<and> (\<exists>response trip trip_id.
               fst (scan TRIPS_TABLE client) = Inr response \<and> trip \<in> set (Items response)
               \<and> trip ''tripId'' = Some (S trip_id)
               \<and> Key r = [''PK'' \<mapsto> S (''TRIP#'' @ trip_id), ''SK'' \<mapsto> S ''METADATA''])"
proof -
  from run_update_from_item [OF assms]
  obtain resp trip where sc: "fst (scan TRIPS_TABLE client) = Inr resp"
    and tr: "trip \<in> set (Items resp)" and up: "trip_update BROKER_NAMES trip = Some r"
    by blast
  from trip_update_Some [OF up]
  obtain tid n where "trip ''tripId'' = Some (S tid)" and "r = update_request tid n"
    by blast
  with sc tr show ?thesis
    by (auto simp: update_request_def TRIPS_TABLE_def ENVIRONMENT_def)
qed

theorem C6_witness:
  "update_request ''T1'' ''C.H. Robinson''
     \<in> set (update_requests (trace (fst (run ddb_scan (ddb_update_item example_fault) example_db))))
   \<and> TableName (update_request ''T1'' ''C.H. Robinson'') = ''HaulHub-TripsTable-dev''"
proof -
  have h: "update_request ''T1'' ''C.H. Robinson''
     \<in> set (update_requests (trace (fst (run ddb_scan (ddb_update_item example_fault) example_db))))"
    by (simp add: example_run_updates)
  from h C6_update_target [where scan = ddb_scan, OF h, THEN conjunct1] show ?thesis
    by (rule conjI)
qed







text \<open>
  C10. The test of line 67 is on the value looked up, not on the presence of the key: an
  item whose \<^verbatim>\<open>brokerId\<close> is mapped to the empty string goes the way of an item
  whose \<^verbatim>\<open>brokerId\<close> is missing from the dictionary. No request is sent, the warning
  is printed, and \<^verbatim>\<open>failed\<close> goes up by one. (In \<open>BROKER_NAMES\<close> itself no name is
  empty, see \<open>BROKER_NAMES_nonempty\<close>; the statement is for any dictionary.)
\<close>

theorem C10_empty_name_as_absent:
  assumes "trip ''tripId'' = Some (S trip_id)"
      and "trip ''brokerId'' = Some (S broker_id)"
      and "names broker_id = Some []"
  shows "process_trip update_item names trip st
           = process_trip update_item (names(broker_id := None)) trip st
         \<and> process_trip update_item names trip st
           = Inr (st\<lparr>trace := trace st @ [Print (warning_sign
                         @ '' Warning: No broker name found for '' @ broker_id
                         @ '' in trip '' @ trip_id)],
                     failed := failed st + 1\<rparr>)"
proof -
  from assms(1,2) have ids: "trip_ids trip = Some (trip_id, broker_id)"
    by (simp add: trip_ids_iff)
  show ?thesis
    using assms(3) by (simp add: process_trip_ids [OF ids] resolve_def no_broker_name_eq)
qed

theorem C10_witness:
  "process_trip (\<lambda>r c. (Inr (), c)) [''broker-000'' \<mapsto> []] (trip_item ''T9'' ''broker-000'')
     \<lparr>dynamodb = (), trace = [], updated = 0, failed = 0\<rparr>
   = Inr \<lparr>dynamodb = (),
          trace = [Print (warning_sign @ '' Warning: No broker name found for broker-000 in trip T9'')],
          updated = 0, failed = 1\<rparr>"
proof -
  have h1: "trip_item ''T9'' ''broker-000'' ''tripId'' = Some (S ''T9'')"
    and h2: "trip_item ''T9'' ''broker-000'' ''brokerId'' = Some (S ''broker-000'')"
    and h3: "[''broker-000'' \<mapsto> []] ''broker-000'' = Some []"
    by (simp_all add: trip_item_def)
  from C10_empty_name_as_absent [where trip = "trip_item ''T9'' ''broker-000''"
      and names = "[''broker-000'' \<mapsto> []]" and trip_id = "''T9''"
      and broker_id = "''broker-000''" and update_item = "\<lambda>r c. (Inr (), c)"
      and st = "\<lparr>dynamodb = (), trace = [], updated = 0, failed = 0\<rparr>",
      OF h1 h2 h3, THEN conjunct2]
  show ?thesis by simp
qed

end
